theory Spec2Isabelle
  imports Main
begin

section \<open>Python values\<close>

text \<open>
  The values that \<^verbatim>\<open>yaml.safe_load\<close> hands to the importer. A float is identified by the
  text \<^verbatim>\<open>repr\<close> prints for it (which Python 3 also uses for \<^verbatim>\<open>str\<close>); a dict keeps its
  insertion order and has field names (strings) as keys. \<open>PyOther\<close> is an object of any
  other class (date, datetime, set, tuple, bytes): it carries the text \<^verbatim>\<open>str\<close> gives for it
  and its truth value.
\<close>

datatype pyval =
    PyStr string
  | PyInt int
  | PyFloat string
  | PyBool bool
  | PyList "pyval list"
  | PyDict "(string \<times> pyval) list"
  | PyNone
  | PyOther string bool

datatype pytype = T_str | T_int | T_float | T_bool | T_list | T_dict | T_NoneType | T_object

datatype py_error =
    TypeError | ValueError | IndexError | AttributeError
  | FileNotFoundError | YAMLError | OtherException

fun type_of :: "pyval \<Rightarrow> pytype" where
  "type_of (PyStr _) = T_str"
| "type_of (PyInt _) = T_int"
| "type_of (PyFloat _) = T_float"
| "type_of (PyBool _) = T_bool"
| "type_of (PyList _) = T_list"
| "type_of (PyDict _) = T_dict"
| "type_of PyNone = T_NoneType"
| "type_of (PyOther _ _) = T_object"

text \<open>\<^verbatim>\<open>isinstance(value, cls)\<close>: in Python \<^verbatim>\<open>bool\<close> is a subclass of \<^verbatim>\<open>int\<close>.\<close>

definition isinstance :: "pyval \<Rightarrow> pytype \<Rightarrow> bool" where
  "isinstance v t = (type_of v = t \<or> (type_of v = T_bool \<and> t = T_int))"

fun the_list :: "pyval \<Rightarrow> pyval list" where
  "the_list (PyList xs) = xs"
| "the_list _ = []"

fun the_dict :: "pyval \<Rightarrow> (string \<times> pyval) list" where
  "the_dict (PyDict kvs) = kvs"
| "the_dict _ = []"

text \<open>Truth value of an object, as \<^verbatim>\<open>if not x\<close> tests it.\<close>

fun py_truthy :: "pyval \<Rightarrow> bool" where
  "py_truthy (PyStr s) = (s \<noteq> [])"
| "py_truthy (PyInt i) = (i \<noteq> 0)"
| "py_truthy (PyFloat r) = (r \<noteq> ''0.0'' \<and> r \<noteq> ''-0.0'')"
| "py_truthy (PyBool b) = b"
| "py_truthy (PyList xs) = (xs \<noteq> [])"
| "py_truthy (PyDict kvs) = (kvs \<noteq> [])"
| "py_truthy PyNone = False"
| "py_truthy (PyOther _ t) = t"

subsection \<open>\<^verbatim>\<open>str\<close> of a value\<close>

fun str_nat :: "nat \<Rightarrow> string" where
  "str_nat n = (if n < 10 then [''0123456789'' ! n]
                else str_nat (n div 10) @ [''0123456789'' ! (n mod 10)])"

declare str_nat.simps [simp del]

definition str_int :: "int \<Rightarrow> string" where
  "str_int i = (if i < 0 then CHR ''-'' # str_nat (nat (- i)) else str_nat (nat i))"

text \<open>
  \<^verbatim>\<open>str(value)\<close>, which is also what an f-string inserts. The text of a list or a dict is
  the \<^verbatim>\<open>repr\<close> of its elements; that printer is not part of the repository and is the
  parameter \<open>rt\<close>.
\<close>

fun py_str :: "(pyval \<Rightarrow> string) \<Rightarrow> pyval \<Rightarrow> string" where
  "py_str rt (PyStr s) = s"
| "py_str rt (PyInt i) = str_int i"
| "py_str rt (PyFloat r) = r"
| "py_str rt (PyBool b) = (if b then ''True'' else ''False'')"
| "py_str rt (PyList xs) = rt (PyList xs)"
| "py_str rt (PyDict kvs) = rt (PyDict kvs)"
| "py_str rt PyNone = ''None''"
| "py_str rt (PyOther s _) = s"

subsection \<open>Dictionaries\<close>

text \<open>\<^verbatim>\<open>k in d\<close>, \<^verbatim>\<open>d.get(k, default)\<close>, \<^verbatim>\<open>d.get(k)\<close> and \<^verbatim>\<open>d[k] = v\<close>.\<close>

definition dict_in :: "string \<Rightarrow> (string \<times> pyval) list \<Rightarrow> bool" where
  "dict_in k d = (map_of d k \<noteq> None)"

definition dict_get_default :: "(string \<times> pyval) list \<Rightarrow> string \<Rightarrow> pyval \<Rightarrow> pyval" where
  "dict_get_default d k dflt = (case map_of d k of None \<Rightarrow> dflt | Some v \<Rightarrow> v)"

definition dict_get :: "(string \<times> pyval) list \<Rightarrow> string \<Rightarrow> pyval" where
  "dict_get d k = dict_get_default d k PyNone"

fun dict_set :: "(string \<times> pyval) list \<Rightarrow> string \<Rightarrow> pyval \<Rightarrow> (string \<times> pyval) list" where
  "dict_set [] k v = [(k, v)]"
| "dict_set ((k', v') # d) k v = (if k' = k then (k, v) # d else (k', v') # dict_set d k v)"

section \<open>Record store: conversion to the tagged-value format (dbase.py)\<close>

lemma size_the_list: "x \<in> set (the_list v) \<Longrightarrow> size x < size v"
  by (cases v) (auto simp: less_Suc_eq_le size_list_estimation')

lemma size_the_dict: "(k, x) \<in> set (the_dict v) \<Longrightarrow> size x < size v"
proof (cases v)
  case (PyDict kvs)
  assume "(k, x) \<in> set (the_dict v)"
  with PyDict have "(k, x) \<in> set kvs" by simp
  then have "size_prod (\<lambda>_. 0) size (k, x) \<le> size_list (size_prod (\<lambda>_. 0) size) kvs"
    by (rule size_list_estimation') simp
  with PyDict show ?thesis by simp
qed auto

function convert_to_dynamodb_format :: "(pyval \<Rightarrow> string) \<Rightarrow> pyval \<Rightarrow> pyval" where
  "convert_to_dynamodb_format rt val =
     (if isinstance val T_str then PyDict [(''S'', val)]
      else if isinstance val T_int \<or> isinstance val T_float then
        PyDict [(''N'', PyStr (py_str rt val))]
      else if isinstance val T_bool then PyDict [(''BOOL'', val)]
      else if isinstance val T_list then
        PyDict [(''L'', PyList (map (convert_to_dynamodb_format rt) (the_list val)))]
      else if isinstance val T_dict then
        PyDict [(''M'', PyDict (map (\<lambda>(k, v). (k, convert_to_dynamodb_format rt v)) (the_dict val)))]
      else if val = PyNone then PyDict [(''NULL'', PyBool True)]
      else PyDict [(''S'', PyStr (py_str rt val))])"
  by pat_completeness auto
termination
  by (relation "measure (\<lambda>(rt, v). size v)") (auto simp: size_the_list size_the_dict)

declare convert_to_dynamodb_format.simps [simp del]

text \<open>Line 120: the whole item, field by field.\<close>

definition convert_item :: "(pyval \<Rightarrow> string) \<Rightarrow> (string \<times> pyval) list \<Rightarrow> (string \<times> pyval) list" where
  "convert_item rt item = map (\<lambda>(k, v). (k, convert_to_dynamodb_format rt v)) item"

section \<open>Read side: back to a regular dictionary (app.py, products.py)\<close>

text \<open>\<^verbatim>\<open>v.get(list(v.keys())[0])\<close>: the payload under the first type tag.\<close>

definition first_payload :: "pyval \<Rightarrow> py_error + pyval" where
  "first_payload v =
     (if isinstance v T_dict then
        (case the_dict v of
           [] \<Rightarrow> Inl IndexError
         | (k0, _) # _ \<Rightarrow> Inr (dict_get (the_dict v) k0))
      else Inl AttributeError)"

text \<open>\<^verbatim>\<open>{k: v.get(list(v.keys())[0]) for k, v in product.items()}\<close>\<close>

fun from_dynamodb_format :: "(string \<times> pyval) list \<Rightarrow> py_error + (string \<times> pyval) list" where
  "from_dynamodb_format [] = Inr []"
| "from_dynamodb_format ((k, v) # rest) =
     (case first_payload v of
        Inl e \<Rightarrow> Inl e
      | Inr x \<Rightarrow>
          (case from_dynamodb_format rest of
             Inl e \<Rightarrow> Inl e
           | Inr r \<Rightarrow> Inr ((k, x) # r)))"

section \<open>The importer (uploader.py)\<close>

subsection \<open>Library: \<^verbatim>\<open>os.path.join\<close> and slices\<close>

text \<open>One round of the loop of \<^verbatim>\<open>posixpath.join\<close>.\<close>

definition startswith_sep :: "string \<Rightarrow> bool" where
  "startswith_sep b = (b \<noteq> [] \<and> hd b = CHR ''/'')"

definition endswith_sep :: "string \<Rightarrow> bool" where
  "endswith_sep path = (path \<noteq> [] \<and> last path = CHR ''/'')"

definition join_step :: "string \<Rightarrow> string \<Rightarrow> string" where
  "join_step path b =
     (if startswith_sep b then b
      else if path = [] \<or> endswith_sep path then path @ b
      else path @ ''/'' @ b)"

text \<open>\<^verbatim>\<open>os.path.join(a, *p)\<close>: a component that is not a string raises \<^verbatim>\<open>TypeError\<close>.\<close>

fun os_path_join :: "string \<Rightarrow> pyval list \<Rightarrow> py_error + string" where
  "os_path_join path [] = Inr path"
| "os_path_join path (PyStr b # p) = os_path_join (join_step path b) p"
| "os_path_join path (_ # p) = Inl TypeError"

text \<open>\<^verbatim>\<open>xs[i:j]\<close>: a negative index counts from the end, and both ends are clamped.\<close>

definition py_slice :: "'a list \<Rightarrow> int \<Rightarrow> int \<Rightarrow> 'a list" where
  "py_slice xs i j =
     (let n = int (length xs);
          lo = (if i < 0 then max (n + i) 0 else min i n);
          hi = (if j < 0 then max (n + j) 0 else min j n)
      in take (nat (hi - lo)) (drop (nat lo) xs))"

subsection \<open>The outside world\<close>

text \<open>
  The collaborators of the importer, over a state \<open>'w\<close> of the outside world: the clock,
  the DynamoDB client (whether one is held, creating one, \<^verbatim>\<open>put_item\<close>), the file system,
  the S3 client, the process environment and the YAML loader. A call that reports
  \<open>False\<close> is one that raised. What the program prints is not part of the model: standard
  output and the debug log are taken to accept everything written to them.
\<close>

record 'w env =
  utcnow_isoformat :: "'w \<Rightarrow> string \<times> 'w"
  client_ready :: "'w \<Rightarrow> bool"
  connect :: "'w \<Rightarrow> bool \<times> 'w"
  put_item :: "'w \<Rightarrow> string \<Rightarrow> (string \<times> pyval) list \<Rightarrow> bool \<times> 'w"
  path_exists :: "'w \<Rightarrow> string \<Rightarrow> bool"
  upload_file :: "'w \<Rightarrow> string \<Rightarrow> string \<Rightarrow> string \<Rightarrow> bool \<times> 'w"
  repr_text :: "pyval \<Rightarrow> string"
  getenv :: "string \<Rightarrow> string option"
  read_yaml :: "'w \<Rightarrow> string \<Rightarrow> py_error + pyval"

record config =
  cfg_data_path :: string
  cfg_image_path :: string
  cfg_s3_bucket :: string

subsection \<open>\<^verbatim>\<open>Dbase.add_item\<close>\<close>

text \<open>
  The body of the method (lines 97 to 136): every exception of the conversion or of the
  store is caught there and gives \<open>False\<close>. The wrapper \<^verbatim>\<open>@debug\<close> around it prints the
  arguments before the call, which raises for a value that cannot be printed; it is left
  out here, and the properties that need it to be silent ask for printable records.
\<close>

definition add_item ::
  "'w env \<Rightarrow> 'w \<Rightarrow> string \<Rightarrow> (string \<times> pyval) list \<Rightarrow> bool \<times> 'w" where
  "add_item e w tbl item =
     (if \<not> client_ready e w then
        (case connect e w of
           (False, w1) \<Rightarrow> (False, w1)
         | (True, w1) \<Rightarrow> put_item e w1 tbl (convert_item (repr_text e) item))
      else put_item e w tbl (convert_item (repr_text e) item))"

subsection \<open>\<^verbatim>\<open>DataUploader._load_config\<close>\<close>

text \<open>
  The three settings, and the \<^verbatim>\<open>ValueError\<close> of a missing bucket (lines 37 to 43). The two
  calls of \<^verbatim>\<open>os.makedirs\<close> that follow (lines 46 and 47) are left out: an \<open>Inr\<close> here is the
  configuration the method returns when both succeed.
\<close>

definition load_config :: "(string \<Rightarrow> string option) \<Rightarrow> py_error + config" where
  "load_config ge =
     (let dp = (case ge ''DATA_PATH'' of None \<Rightarrow> ''./data'' | Some v \<Rightarrow> v);
          ip = (case ge ''IMAGE_PATH'' of None \<Rightarrow> ''./data/images'' | Some v \<Rightarrow> v)
      in case ge ''S3_BUCKET'' of
           None \<Rightarrow> Inl ValueError
         | Some b \<Rightarrow>
             if b = [] then Inl ValueError
             else Inr \<lparr>cfg_data_path = dp, cfg_image_path = ip, cfg_s3_bucket = b\<rparr>)"

subsection \<open>\<^verbatim>\<open>DataUploader.upload_image_to_s3\<close>\<close>

definition upload_image_to_s3 ::
  "'w env \<Rightarrow> 'w \<Rightarrow> string \<Rightarrow> (string \<times> pyval) list \<Rightarrow> string \<Rightarrow> bool \<times> 'w" where
  "upload_image_to_s3 e w img product bucket_name =
     (if \<not> path_exists e w img then (False, w)
      else
        let category = dict_get_default product ''category'' (PyStr ''uncategorized'');
            image_name = dict_get product ''image''
        in if \<not> py_truthy image_name then (False, w)
           else
             let s3_key = py_str (repr_text e) category @ ''/'' @ py_str (repr_text e) image_name
             in upload_file e w img bucket_name s3_key)"

subsection \<open>\<^verbatim>\<open>DataUploader.get_image_path\<close>\<close>

definition default_image :: string where
  "default_image = ''product_image_coming_soon.png''"

definition get_image_path ::
  "'w env \<Rightarrow> 'w \<Rightarrow> (string \<times> pyval) list \<Rightarrow> string \<Rightarrow> string \<Rightarrow> py_error + (string \<times> bool)" where
  "get_image_path e w product base_image_path dflt =
     (if \<not> dict_in ''image'' product then
        (case os_path_join base_image_path [PyStr dflt] of
           Inl err \<Rightarrow> Inl err
         | Inr p \<Rightarrow> Inr (p, True))
      else
        let category = dict_get_default product ''category'' (PyStr ''uncategorized'')
        in case os_path_join base_image_path [category, dict_get product ''image''] of
             Inl err \<Rightarrow> Inl err
           | Inr image_file_path \<Rightarrow>
               if \<not> path_exists e w image_file_path then
                 (case os_path_join base_image_path [PyStr dflt] of
                    Inl err \<Rightarrow> Inl err
                  | Inr p \<Rightarrow> Inr (p, True))
               else Inr (image_file_path, False))"

subsection \<open>\<^verbatim>\<open>DataUploader.bulk_upload_products\<close>\<close>

text \<open>Lines 146 to 150: the window of the batch that one run processes.\<close>

definition select_window :: "'a list \<Rightarrow> int \<Rightarrow> int option \<Rightarrow> 'a list" where
  "select_window products start_index cnt =
     (let end_index = (case cnt of Some c \<Rightarrow> start_index + c | None \<Rightarrow> int (length products));
          end_index' = min end_index (int (length products))
      in py_slice products start_index end_index')"

text \<open>
  What \<^verbatim>\<open>for product in products[start_index:end_index]\<close> iterates over. A list gives its
  records and a string its characters; \<^verbatim>\<open>len\<close> or the slice raises \<^verbatim>\<open>TypeError\<close> on every
  other document (a bare bytes scalar is outside this model).
\<close>

definition products_subset :: "pyval \<Rightarrow> int \<Rightarrow> int option \<Rightarrow> py_error + pyval list" where
  "products_subset products start_index cnt =
     (case products of
        PyList xs \<Rightarrow> Inr (select_window xs start_index cnt)
      | PyStr s \<Rightarrow> Inr (map (\<lambda>c. PyStr [c]) (select_window s start_index cnt))
      | _ \<Rightarrow> Inl TypeError)"

text \<open>
  The calls the loop makes, in order, kept beside the counters: the record-store write
  with its result, the image-path resolution, and the upload with its result.
\<close>

datatype event =
    Ev_add_item string "(string \<times> pyval) list" bool
  | Ev_get_image_path "(string \<times> pyval) list"
  | Ev_upload_image_to_s3 string "(string \<times> pyval) list" string bool

text \<open>
  The five counters, the outside world, the calls made so far, and the records already
  processed, as the run left them in memory.
\<close>

record 'w run_state =
  db_success :: nat
  db_failure :: nat
  image_success :: nat
  image_failure :: nat
  default_image_count :: nat
  world :: 'w
  calls :: "event list"
  processed :: "(string \<times> pyval) list list"

definition initial_state :: "'w \<Rightarrow> 'w run_state" where
  "initial_state w =
     \<lparr>db_success = 0, db_failure = 0, image_success = 0, image_failure = 0,
      default_image_count = 0, world = w, calls = [], processed = []\<rparr>"

text \<open>Lines 170 to 180: the image step of a record whose write succeeded.\<close>

definition image_step ::
  "'w env \<Rightarrow> config \<Rightarrow> (string \<times> pyval) list \<Rightarrow> 'w run_state \<Rightarrow> py_error option \<times> 'w run_state" where
  "image_step e cfg product st =
     (case get_image_path e (world st) product (cfg_image_path cfg) default_image of
        Inl err \<Rightarrow> (Some err, st\<lparr>calls := calls st @ [Ev_get_image_path product]\<rparr>)
      | Inr (image_file_path, is_default) \<Rightarrow>
          let product' = (if is_default then dict_set product ''image'' (PyStr default_image)
                          else product);
              (up, w') = upload_image_to_s3 e (world st) image_file_path product' (cfg_s3_bucket cfg)
          in (None,
              st\<lparr>default_image_count :=
                    (if is_default then default_image_count st + 1 else default_image_count st),
                 image_success := (if up then image_success st + 1 else image_success st),
                 image_failure := (if up then image_failure st else image_failure st + 1),
                 world := w',
                 calls := calls st @
                   [Ev_get_image_path product,
                    Ev_upload_image_to_s3 image_file_path product' (cfg_s3_bucket cfg) up],
                 processed := processed st @ [product']\<rparr>))"

text \<open>Lines 163 to 182: the body of the loop, for one element of the window.\<close>

definition process_product ::
  "'w env \<Rightarrow> config \<Rightarrow> string \<Rightarrow> pyval \<Rightarrow> 'w run_state \<Rightarrow> py_error option \<times> 'w run_state" where
  "process_product e cfg tbl product st =
     (let (ts, w1) = utcnow_isoformat e (world st)
      in if \<not> isinstance product T_dict then (Some TypeError, st\<lparr>world := w1\<rparr>)
         else
           let stamped = dict_set (the_dict product) ''created_at'' (PyStr ts);
               (ok, w2) = add_item e w1 tbl stamped;
               st1 = st\<lparr>world := w2, calls := calls st @ [Ev_add_item tbl stamped ok]\<rparr>
           in if ok then image_step e cfg stamped (st1\<lparr>db_success := db_success st1 + 1\<rparr>)
              else (None, st1\<lparr>db_failure := db_failure st1 + 1,
                               processed := processed st1 @ [stamped]\<rparr>))"

text \<open>
  The loop takes the elements of the window one after the other, as values. A document in
  which a YAML alias names the same mapping twice gives Python one object at two places of
  the list, and the second pass then sees what the first has written into it; the loop
  here does not follow that sharing.
\<close>

fun run_loop ::
  "'w env \<Rightarrow> config \<Rightarrow> string \<Rightarrow> pyval list \<Rightarrow> 'w run_state \<Rightarrow> py_error option \<times> 'w run_state" where
  "run_loop e cfg tbl [] st = (None, st)"
| "run_loop e cfg tbl (product # rest) st =
     (case process_product e cfg tbl product st of
        (Some err, st') \<Rightarrow> (Some err, st')
      | (None, st') \<Rightarrow> run_loop e cfg tbl rest st')"

text \<open>
  How a call of \<^verbatim>\<open>bulk_upload_products\<close> ends: \<^verbatim>\<open>sys.exit\<close> with a code, the early return
  on an empty document, or the printed summary with the number of records processed.
\<close>

datatype outcome = SysExit nat | NoProducts | Summary nat

definition bulk_upload_products ::
  "'w env \<Rightarrow> config \<Rightarrow> 'w \<Rightarrow> string \<Rightarrow> string \<Rightarrow> int \<Rightarrow> int option \<Rightarrow> outcome \<times> 'w run_state" where
  "bulk_upload_products e cfg w yaml_file tbl start_index cnt =
     (case os_path_join (cfg_data_path cfg) [PyStr yaml_file] of
        Inl err \<Rightarrow> (SysExit 1, initial_state w)
      | Inr yaml_path \<Rightarrow>
          (case read_yaml e w yaml_path of
             Inl FileNotFoundError \<Rightarrow> (SysExit 1, initial_state w)
           | Inl YAMLError \<Rightarrow> (SysExit 1, initial_state w)
           | Inl _ \<Rightarrow> (SysExit 1, initial_state w)
           | Inr products \<Rightarrow>
               if \<not> py_truthy products then (NoProducts, initial_state w)
               else
                 (case products_subset products start_index cnt of
                    Inl err \<Rightarrow> (SysExit 1, initial_state w)
                  | Inr win \<Rightarrow>
                      (case run_loop e cfg tbl win (initial_state w) of
                         (Some err, st) \<Rightarrow> (SysExit 1, st)
                       | (None, st) \<Rightarrow> (Summary (length win), st)))))"

subsection \<open>\<^verbatim>\<open>main\<close>\<close>

record args =
  arg_yaml_file :: string
  arg_table_name :: string
  arg_start :: int
  arg_count :: "int option"

text \<open>
  The configuration is loaded when the uploader is built; its \<^verbatim>\<open>ValueError\<close> ends the
  process with code 1. The command line has been accepted (the arguments are given), and
  the other steps of building the uploader, creating the directories and the AWS sessions
  and clients, are left out: \<open>main\<close> describes the process from the point where they have
  succeeded, or where the missing bucket has stopped it before them.
\<close>

definition main :: "'w env \<Rightarrow> 'w \<Rightarrow> args \<Rightarrow> outcome \<times> 'w run_state" where
  "main e w a =
     (case load_config (getenv e) of
        Inl err \<Rightarrow> (SysExit 1, initial_state w)
      | Inr cfg \<Rightarrow>
          bulk_upload_products e cfg w (arg_yaml_file a) (arg_table_name a)
            (arg_start a) (arg_count a))"

definition exit_code :: "outcome \<Rightarrow> nat" where
  "exit_code out = (case out of SysExit n \<Rightarrow> n | _ \<Rightarrow> 0)"

subsection \<open>Reading the calls of a run\<close>

text \<open>
  Counting in the list of calls: the writes and the uploads that returned a given result,
  the uploads attempted. \<open>counters_match\<close> and \<open>upload_counters_match\<close> relate the counters
  to the calls made.
\<close>

fun is_write :: "bool \<Rightarrow> event \<Rightarrow> bool" where
  "is_write b (Ev_add_item _ _ r) = (r = b)"
| "is_write b _ = False"

fun is_upload :: "event \<Rightarrow> bool" where
  "is_upload (Ev_upload_image_to_s3 _ _ _ _) = True"
| "is_upload _ = False"

fun is_resolve :: "event \<Rightarrow> bool" where
  "is_resolve (Ev_get_image_path _) = True"
| "is_resolve _ = False"

definition writes_ok :: "event list \<Rightarrow> nat" where
  "writes_ok cs = length (filter (is_write True) cs)"

definition writes_failed :: "event list \<Rightarrow> nat" where
  "writes_failed cs = length (filter (is_write False) cs)"

definition upload_attempts :: "event list \<Rightarrow> nat" where
  "upload_attempts cs = length (filter is_upload cs)"

definition counters_match :: "'w run_state \<Rightarrow> bool" where
  "counters_match st =
     (db_success st = writes_ok (calls st) \<and>
      db_failure st = writes_failed (calls st) \<and>
      image_success st + image_failure st = upload_attempts (calls st) \<and>
      upload_attempts (calls st) = db_success st \<and>
      db_success st + db_failure st = length (processed st) \<and>
      default_image_count st \<le> db_success st)"





subsection \<open>Well-formed records\<close>

text \<open>
  A value that every Python can print: the text of each of its integers has at most 640
  characters (no setting of the limit on the conversion of integers to text can refuse
  those) and its lists and mappings are nested at most a hundred deep. The wrapper \<^verbatim>\<open>@debug\<close> of
  debug.py prints the arguments of \<^verbatim>\<open>add_item\<close>, \<^verbatim>\<open>get_image_path\<close> and \<^verbatim>\<open>upload_image_to_s3\<close>
  before the call; for a printable record it does nothing else, and the model of these
  three operations is their bodies.
\<close>

fun printable_within :: "nat \<Rightarrow> pyval \<Rightarrow> bool" where
  "printable_within d (PyInt i) = (length (str_int i) \<le> 640)"
| "printable_within 0 (PyList xs) = False"
| "printable_within (Suc d) (PyList xs) = list_all (printable_within d) xs"
| "printable_within 0 (PyDict kvs) = False"
| "printable_within (Suc d) (PyDict kvs) = list_all (\<lambda>kv. printable_within d (snd kv)) kvs"
| "printable_within d _ = True"

definition printable :: "pyval \<Rightarrow> bool" where
  "printable v = printable_within 100 v"

text \<open>The field \<open>k\<close> is absent, or it is a string with no NUL character in it.\<close>

definition plain_string_or_absent :: "string \<Rightarrow> (string \<times> pyval) list \<Rightarrow> bool" where
  "plain_string_or_absent k d =
     (case map_of d k of
        None \<Rightarrow> True
      | Some (PyStr s) \<Rightarrow> CHR 0x00 \<notin> set s
      | Some _ \<Rightarrow> False)"

text \<open>
  A record as the data model has it: a printable mapping whose category and image, where
  present, are strings. (The category has to be a string also where no image is given: the
  run then sets the image field, and a document that names the same mapping twice has the
  record processed again with that image.)
\<close>

definition well_formed_record :: "pyval \<Rightarrow> bool" where
  "well_formed_record v =
     (isinstance v T_dict \<and> printable v \<and>
      plain_string_or_absent ''image'' (the_dict v) \<and>
      plain_string_or_absent ''category'' (the_dict v))"

subsection \<open>Sample surroundings\<close>

text \<open>
  A small outside world for concrete runs: the clock always reads the same instant, a
  DynamoDB client is held, every write succeeds but that of the record whose \<^verbatim>\<open>id\<close> is
  \<open>bad_id\<close>, the files on disk are those of \<open>files\<close>, every upload succeeds, the bucket is
  configured, and the YAML loader gives \<open>doc\<close>.
\<close>

definition sample_env :: "string \<Rightarrow> (string \<Rightarrow> bool) \<Rightarrow> py_error + pyval \<Rightarrow> nat env" where
  "sample_env bad_id files doc =
     \<lparr>utcnow_isoformat = (\<lambda>w. (''2024-05-01T10:00:00'', Suc w)),
      client_ready = (\<lambda>w. True),
      connect = (\<lambda>w. (True, w)),
      put_item = (\<lambda>w tbl item. (map_of item ''id'' \<noteq> Some (PyDict [(''S'', PyStr bad_id)]), Suc w)),
      path_exists = (\<lambda>w. files),
      upload_file = (\<lambda>w p b k. (True, Suc w)),
      repr_text = (\<lambda>v. []),
      getenv = (\<lambda>k. if k = ''S3_BUCKET'' then Some ''bucket'' else None),
      read_yaml = (\<lambda>w p. doc)\<rparr>"

definition sample_config :: config where
  "sample_config =
     \<lparr>cfg_data_path = ''./data'', cfg_image_path = ''./data/images'', cfg_s3_bucket = ''bucket''\<rparr>"

definition sample_args :: args where
  "sample_args =
     \<lparr>arg_yaml_file = ''products.yaml'', arg_table_name = ''Products'', arg_start = 0,
      arg_count = None\<rparr>"

text \<open>A batch of three records, the second of which the record store refuses.\<close>

definition sample_doc :: pyval where
  "sample_doc = PyList
       [PyDict [(''id'', PyStr ''p1''), (''category'', PyStr ''shoes''), (''image'', PyStr ''a.png'')],
        PyDict [(''id'', PyStr ''bad''), (''category'', PyStr ''shoes''), (''image'', PyStr ''a.png'')],
        PyDict [(''id'', PyStr ''p3''), (''name'', PyStr ''hat'')]]"

text \<open>Two directories of images: one with a product image, one with the default image only.\<close>

definition sample_files :: "string \<Rightarrow> bool" where
  "sample_files =
     (\<lambda>p. p = ''./data/images/shoes/a.png'' \<or>
          p = ''./data/images/product_image_coming_soon.png'')"



section \<open>Properties of the conversion\<close>

lemma convert_PyStr: "convert_to_dynamodb_format rt (PyStr s) = PyDict [(''S'', PyStr s)]"
  by (simp add: convert_to_dynamodb_format.simps isinstance_def)

lemma convert_PyInt:
  "convert_to_dynamodb_format rt (PyInt i) = PyDict [(''N'', PyStr (str_int i))]"
  by (simp add: convert_to_dynamodb_format.simps isinstance_def)

lemma convert_PyFloat:
  "convert_to_dynamodb_format rt (PyFloat r) = PyDict [(''N'', PyStr r)]"
  by (simp add: convert_to_dynamodb_format.simps isinstance_def)

lemma convert_PyBool:
  "convert_to_dynamodb_format rt (PyBool b) =
     PyDict [(''N'', PyStr (if b then ''True'' else ''False''))]"
  by (simp add: convert_to_dynamodb_format.simps isinstance_def)

lemma convert_PyList:
  "convert_to_dynamodb_format rt (PyList xs) =
     PyDict [(''L'', PyList (map (convert_to_dynamodb_format rt) xs))]"
  by (simp add: convert_to_dynamodb_format.simps [of rt "PyList xs"] isinstance_def)

lemma convert_PyDict:
  "convert_to_dynamodb_format rt (PyDict kvs) = PyDict [(''M'', PyDict (convert_item rt kvs))]"
  by (simp add: convert_to_dynamodb_format.simps [of rt "PyDict kvs"] isinstance_def
      convert_item_def)

lemma convert_PyNone: "convert_to_dynamodb_format rt PyNone = PyDict [(''NULL'', PyBool True)]"
  by (simp add: convert_to_dynamodb_format.simps isinstance_def)

lemma convert_PyOther:
  "convert_to_dynamodb_format rt (PyOther s t) = PyDict [(''S'', PyStr s)]"
  by (simp add: convert_to_dynamodb_format.simps isinstance_def)

text \<open>
  C1, at a boolean field value: \<^verbatim>\<open>isinstance(value, (int, float))\<close> is tested before
  \<^verbatim>\<open>isinstance(value, bool)\<close> and holds for a boolean, so the conversion yields the
  tagged number holding the text \<^verbatim>\<open>True\<close> or \<^verbatim>\<open>False\<close>, and never the tagged-bool form.
\<close>

theorem convert_bool_tagged_as_number:
  "convert_to_dynamodb_format rt (PyBool b) =
     PyDict [(''N'', PyStr (if b then ''True'' else ''False''))] \<and>
   convert_to_dynamodb_format rt (PyBool b) \<noteq> PyDict [(''BOOL'', PyBool b)]"
  by (simp add: convert_PyBool)

lemma first_payload_convert:
  "isinstance v T_str \<or> type_of v = T_int \<or> type_of v = T_float \<Longrightarrow>
   first_payload (convert_to_dynamodb_format rt v) =
     Inr (if isinstance v T_str then v else PyStr (py_str rt v))"
  by (cases v) (auto simp: first_payload_def isinstance_def dict_get_def dict_get_default_def
      convert_PyStr convert_PyInt convert_PyFloat)

text \<open>
  C3 as stated fails at a number: the record with the price 5 comes back with the
  string \<^verbatim>\<open>'5'\<close> under \<^verbatim>\<open>price\<close>.
\<close>

theorem roundtrip_number_counterexample:
  "from_dynamodb_format
     (convert_item (\<lambda>_. []) [(''id'', PyStr ''p1''), (''price'', PyInt 5)]) =
     Inr [(''id'', PyStr ''p1''), (''price'', PyStr ''5'')] \<and>
   from_dynamodb_format
     (convert_item (\<lambda>_. []) [(''id'', PyStr ''p1''), (''price'', PyInt 5)]) \<noteq>
     Inr [(''id'', PyStr ''p1''), (''price'', PyInt 5)]"
  by (simp add: convert_item_def convert_PyStr convert_PyInt first_payload_def isinstance_def
      dict_get_def dict_get_default_def str_int_def str_nat.simps)

text \<open>
  C3, amended: for a record whose field values are strings and numbers (integers and
  floats, no booleans), converting it and taking the payload under each type tag gives
  back every string field exactly and every numeric field as the text of the number
  (\<^verbatim>\<open>str(value)\<close>), in the same field order.
\<close>

theorem roundtrip_strings_exact_numbers_as_text:
  assumes "\<forall>(k, v) \<in> set item. isinstance v T_str \<or> type_of v = T_int \<or> type_of v = T_float"
  shows "from_dynamodb_format (convert_item rt item) =
     Inr (map (\<lambda>(k, v). (k, if isinstance v T_str then v else PyStr (py_str rt v))) item)"
  using assms
  by (induction item) (auto simp: convert_item_def first_payload_convert)

theorem roundtrip_strings_exact_numbers_as_text_witness:
  "from_dynamodb_format
     (convert_item (\<lambda>_. [])
        [(''name'', PyStr ''boot''), (''current_stock'', PyInt 12), (''price'', PyFloat ''19.99'')]) =
     Inr [(''name'', PyStr ''boot''), (''current_stock'', PyStr ''12''), (''price'', PyStr ''19.99'')]"
  using roundtrip_strings_exact_numbers_as_text
    [of "[(''name'', PyStr ''boot''), (''current_stock'', PyInt 12), (''price'', PyFloat ''19.99'')]"
        "\<lambda>_. []"]
  by (simp add: isinstance_def str_int_def str_nat.simps)

section \<open>Properties of the window\<close>

lemma py_slice_from: "0 \<le> i \<Longrightarrow> py_slice xs i (int (length xs)) = drop (nat i) xs"
  by (auto simp: py_slice_def Let_def min_def)

lemma select_window_all: "select_window xs 0 None = xs"
  by (simp add: select_window_def py_slice_def)

lemma select_window_beyond:
  "int (length xs) \<le> start_index \<Longrightarrow> select_window xs start_index cnt = []"
  by (auto simp: select_window_def py_slice_def Let_def min_def max_def split: option.splits)

lemma select_window_to_end:
  "0 \<le> start_index \<Longrightarrow> select_window xs start_index None = drop (nat start_index) xs"
  by (simp add: select_window_def py_slice_from)

lemma select_window_count:
  "0 \<le> start_index \<Longrightarrow> 0 \<le> c \<Longrightarrow>
   select_window xs start_index (Some c) = take (nat c) (drop (nat start_index) xs)"
  by (auto simp: select_window_def py_slice_def Let_def min_def max_def nat_add_distrib
      nat_diff_distrib)

lemma select_window_truncates:
  "0 \<le> start_index \<Longrightarrow> int (length xs) \<le> start_index + c \<Longrightarrow>
   select_window xs start_index (Some c) = drop (nat start_index) xs"
  by (auto simp: select_window_def py_slice_def Let_def min_def max_def)

text \<open>
  C5: the window is a slice of the batch. With start 0 and no count it is the whole batch,
  in order; a start at or beyond the length of the batch gives the empty window, whatever
  the count; with a start that is not negative, no count means up to the end of the batch,
  a count \<open>c\<close> that is not negative gives the \<open>c\<close> records from the start on (fewer when the
  batch ends before), and a count that reaches beyond the end gives the records up to the
  end: the end index is clamped and nothing fails.
\<close>

theorem select_window_slice:
  "select_window xs 0 None = xs \<and>
   (int (length xs) \<le> start_index \<longrightarrow> select_window xs start_index cnt = []) \<and>
   (0 \<le> start_index \<longrightarrow> select_window xs start_index None = drop (nat start_index) xs) \<and>
   (0 \<le> start_index \<and> 0 \<le> c \<longrightarrow>
      select_window xs start_index (Some c) = take (nat c) (drop (nat start_index) xs)) \<and>
   (0 \<le> start_index \<and> int (length xs) \<le> start_index + c \<longrightarrow>
      select_window xs start_index (Some c) = drop (nat start_index) xs)"
  using select_window_all select_window_beyond select_window_to_end select_window_count
    select_window_truncates by blast

theorem select_window_slice_witness:
  "select_window [PyInt 1, PyInt 2, PyInt 3] 0 None = [PyInt 1, PyInt 2, PyInt 3] \<and>
   select_window [PyInt 1, PyInt 2, PyInt 3] 3 (Some 2) = [] \<and>
   select_window [PyInt 1, PyInt 2, PyInt 3] 1 None = [PyInt 2, PyInt 3] \<and>
   select_window [PyInt 1, PyInt 2, PyInt 3] 1 (Some 1) = [PyInt 2] \<and>
   select_window [PyInt 1, PyInt 2, PyInt 3] 1 (Some 5) = [PyInt 2, PyInt 3]"
proof -
  let ?xs = "[PyInt 1, PyInt 2, PyInt 3]"
  have a: "select_window ?xs 3 (Some 2) = []"
    using select_window_slice [of ?xs 3 "Some 2" 2] by simp
  have b: "select_window ?xs 0 None = ?xs \<and> select_window ?xs 1 None = [PyInt 2, PyInt 3]
      \<and> select_window ?xs 1 (Some 1) = [PyInt 2]"
    using select_window_slice [of ?xs 1 None 1] by simp
  have c: "select_window ?xs 1 (Some 5) = [PyInt 2, PyInt 3]"
    using select_window_slice [of ?xs 1 None 5] by simp
  from a b c show ?thesis by simp
qed

section \<open>Properties of image-path resolution and of the upload key\<close>

lemma join_step_plain:
  "base \<noteq> [] \<Longrightarrow> \<not> endswith_sep base \<Longrightarrow> \<not> startswith_sep b \<Longrightarrow> join_step base b = base @ ''/'' @ b"
  by (simp add: join_step_def)

lemma get_image_path_no_image:
  "\<not> dict_in ''image'' product \<Longrightarrow>
   get_image_path e w product base dflt = Inr (join_step base dflt, True)"
  by (simp add: get_image_path_def)

lemma get_image_path_image:
  "dict_in ''image'' product \<Longrightarrow>
   os_path_join base [dict_get_default product ''category'' (PyStr ''uncategorized''),
                      dict_get product ''image''] = Inr p \<Longrightarrow>
   get_image_path e w product base dflt =
     (if path_exists e w p then Inr (p, False) else Inr (join_step base dflt, True))"
  by (simp add: get_image_path_def Let_def)

lemma get_image_path_literal:
  assumes "map_of product ''image'' = Some (PyStr img)"
    and "map_of product ''category'' = Some (PyStr cat)"
    and "base \<noteq> []" "\<not> endswith_sep base"
    and "cat \<noteq> []" "\<not> startswith_sep cat" "\<not> endswith_sep cat"
    and "\<not> startswith_sep img" "\<not> startswith_sep dflt"
  shows "get_image_path e w product base dflt =
     (if path_exists e w (base @ ''/'' @ cat @ ''/'' @ img)
      then Inr (base @ ''/'' @ cat @ ''/'' @ img, False)
      else Inr (base @ ''/'' @ dflt, True))"
proof -
  have c: "join_step base cat = base @ ''/'' @ cat"
    using assms by (simp add: join_step_plain)
  have "\<not> endswith_sep (base @ ''/'' @ cat)"
    using assms by (simp add: endswith_sep_def)
  then have i: "join_step (base @ ''/'' @ cat) img = (base @ ''/'' @ cat) @ ''/'' @ img"
    using assms by (intro join_step_plain) auto
  have d: "join_step base dflt = base @ ''/'' @ dflt"
    using assms by (simp add: join_step_plain)
  have "dict_in ''image'' product" using assms by (simp add: dict_in_def)
  moreover have "os_path_join base [dict_get_default product ''category'' (PyStr ''uncategorized''),
                      dict_get product ''image''] = Inr (base @ ''/'' @ cat @ ''/'' @ img)"
    using assms c i by (simp add: dict_get_def dict_get_default_def)
  ultimately show ?thesis
    using d by (simp add: get_image_path_image)
qed

text \<open>
  C6: a record with no \<^verbatim>\<open>image\<close> field gets the default image path and used-default true.
  A record with an image field, for which the path \<open>p\<close> is built from the base directory,
  the category and the image, gets \<open>p\<close> and used-default false when \<open>p\<close> exists on disk, and
  the default image path and used-default true when it does not. For a base directory with
  no trailing separator, a category that is a plain name and a relative image name, \<open>p\<close> is
  literally base/category/image and the default path is base/default.
\<close>

theorem get_image_path_default_or_constructed:
  "(\<not> dict_in ''image'' product \<longrightarrow>
      get_image_path e w product base dflt = Inr (join_step base dflt, True)) \<and>
   (dict_in ''image'' product \<and>
    os_path_join base [dict_get_default product ''category'' (PyStr ''uncategorized''),
                       dict_get product ''image''] = Inr p \<longrightarrow>
      get_image_path e w product base dflt =
        (if path_exists e w p then Inr (p, False) else Inr (join_step base dflt, True))) \<and>
   (map_of product ''image'' = Some (PyStr img) \<and> map_of product ''category'' = Some (PyStr cat) \<and>
    base \<noteq> [] \<and> \<not> endswith_sep base \<and>
    cat \<noteq> [] \<and> \<not> startswith_sep cat \<and> \<not> endswith_sep cat \<and>
    \<not> startswith_sep img \<and> \<not> startswith_sep dflt \<longrightarrow>
      get_image_path e w product base dflt =
        (if path_exists e w (base @ ''/'' @ cat @ ''/'' @ img)
         then Inr (base @ ''/'' @ cat @ ''/'' @ img, False)
         else Inr (base @ ''/'' @ dflt, True)))"
  using get_image_path_no_image [of product e w base dflt]
    get_image_path_image [of product base p e w dflt]
    get_image_path_literal [of product img cat base dflt e w]
  by blast

lemma sample_path_exists [simp]: "path_exists (sample_env bad files doc) w = files"
  by (simp add: sample_env_def)

theorem get_image_path_default_or_constructed_witness:
  "get_image_path (sample_env ''bad'' (\<lambda>p. p = ''./data/images/shoes/a.png'') (Inr PyNone)) 0
     [(''id'', PyStr ''p3'')] ''./data/images'' default_image =
     Inr (''./data/images/product_image_coming_soon.png'', True) \<and>
   get_image_path (sample_env ''bad'' (\<lambda>p. p = ''./data/images/shoes/a.png'') (Inr PyNone)) 0
     [(''category'', PyStr ''shoes''), (''image'', PyStr ''a.png'')] ''./data/images'' default_image =
     Inr (''./data/images/shoes/a.png'', False) \<and>
   get_image_path (sample_env ''bad'' (\<lambda>p. p = ''./data/images/shoes/a.png'') (Inr PyNone)) 0
     [(''category'', PyStr ''shoes''), (''image'', PyStr ''b.png'')] ''./data/images'' default_image =
     Inr (''./data/images/product_image_coming_soon.png'', True)"
proof -
  let ?e = "sample_env ''bad'' (\<lambda>p. p = ''./data/images/shoes/a.png'') (Inr PyNone)"
  have a: "get_image_path ?e 0 [(''id'', PyStr ''p3'')] ''./data/images'' default_image =
     Inr (''./data/images/product_image_coming_soon.png'', True)"
    using get_image_path_default_or_constructed
      [of "[(''id'', PyStr ''p3'')]" ?e 0 "''./data/images''" default_image "[]" "[]" "[]"]
    by (simp add: dict_in_def join_step_def startswith_sep_def endswith_sep_def default_image_def)
  have b: "get_image_path ?e 0 [(''category'', PyStr ''shoes''), (''image'', PyStr ''a.png'')]
      ''./data/images'' default_image = Inr (''./data/images/shoes/a.png'', False)"
    using get_image_path_default_or_constructed
      [of "[(''category'', PyStr ''shoes''), (''image'', PyStr ''a.png'')]" ?e 0
          "''./data/images''" default_image "''./data/images/shoes/a.png''" "''a.png''" "''shoes''"]
    by (simp add: dict_in_def dict_get_def dict_get_default_def join_step_def startswith_sep_def
        endswith_sep_def default_image_def)
  have c: "get_image_path ?e 0 [(''category'', PyStr ''shoes''), (''image'', PyStr ''b.png'')]
      ''./data/images'' default_image = Inr (''./data/images/product_image_coming_soon.png'', True)"
    using get_image_path_default_or_constructed
      [of "[(''category'', PyStr ''shoes''), (''image'', PyStr ''b.png'')]" ?e 0
          "''./data/images''" default_image "''./data/images/shoes/b.png''" "''b.png''" "''shoes''"]
    by (simp add: dict_in_def dict_get_def dict_get_default_def join_step_def startswith_sep_def
        endswith_sep_def default_image_def)
  from a b c show ?thesis by simp
qed

lemma join_uncategorized:
  assumes "base \<noteq> []" "\<not> endswith_sep base" "\<not> startswith_sep img"
  shows "join_step (join_step base ''uncategorized'') img = base @ ''/uncategorized/'' @ img"
proof -
  have "join_step base ''uncategorized'' = base @ ''/uncategorized''"
    using assms by (simp add: join_step_def startswith_sep_def)
  moreover have "\<not> endswith_sep (base @ ''/uncategorized'')"
    by (simp add: endswith_sep_def)
  ultimately show ?thesis
    using assms by (simp add: join_step_def)
qed

lemma upload_key_uncategorized:
  assumes "\<not> dict_in ''category'' product" "map_of product ''image'' = Some (PyStr img)"
    "path_exists e w p" "img \<noteq> []"
  shows "upload_image_to_s3 e w p product bucket = upload_file e w p bucket (''uncategorized/'' @ img)"
  using assms
  by (simp add: upload_image_to_s3_def dict_in_def dict_get_def dict_get_default_def Let_def)

text \<open>
  C9: for a record with no \<^verbatim>\<open>category\<close> field and the image file name \<open>img\<close>, image-path
  resolution builds its path from the base directory, the literal \<^verbatim>\<open>uncategorized\<close> and
  \<open>img\<close> (base/uncategorized/img for a base directory with no trailing separator and a
  relative \<open>img\<close>), and the upload of an existing file hands the key uncategorized/img to
  the blob store.
\<close>

theorem uncategorized_substituted:
  assumes "\<not> dict_in ''category'' product" and "map_of product ''image'' = Some (PyStr img)"
  shows "get_image_path e w product base dflt =
       (if path_exists e w (join_step (join_step base ''uncategorized'') img)
        then Inr (join_step (join_step base ''uncategorized'') img, False)
        else Inr (join_step base dflt, True)) \<and>
     (base \<noteq> [] \<and> \<not> endswith_sep base \<and> \<not> startswith_sep img \<longrightarrow>
        join_step (join_step base ''uncategorized'') img = base @ ''/uncategorized/'' @ img) \<and>
     (path_exists e w p \<and> img \<noteq> [] \<longrightarrow>
        upload_image_to_s3 e w p product bucket =
          upload_file e w p bucket (''uncategorized/'' @ img))"
proof -
  have "dict_in ''image'' product" using assms by (simp add: dict_in_def)
  moreover have "os_path_join base [dict_get_default product ''category'' (PyStr ''uncategorized''),
      dict_get product ''image''] = Inr (join_step (join_step base ''uncategorized'') img)"
    using assms by (simp add: dict_in_def dict_get_def dict_get_default_def)
  ultimately have "get_image_path e w product base dflt =
       (if path_exists e w (join_step (join_step base ''uncategorized'') img)
        then Inr (join_step (join_step base ''uncategorized'') img, False)
        else Inr (join_step base dflt, True))"
    by (rule get_image_path_image)
  then show ?thesis
    using join_uncategorized [of base img] upload_key_uncategorized [OF assms, of e w p bucket]
    by blast
qed

lemma sample_upload_file [simp]: "upload_file (sample_env bad files doc) w p b k = (True, Suc w)"
  by (simp add: sample_env_def)

theorem uncategorized_substituted_witness:
  "get_image_path (sample_env ''bad'' (\<lambda>p. p = ''./data/images/uncategorized/a.png'') (Inr PyNone)) 0
     [(''id'', PyStr ''p2''), (''image'', PyStr ''a.png'')] ''./data/images'' default_image =
     Inr (''./data/images/uncategorized/a.png'', False) \<and>
   upload_image_to_s3 (sample_env ''bad'' (\<lambda>p. p = ''./data/images/uncategorized/a.png'') (Inr PyNone)) 0
     ''./data/images/uncategorized/a.png'' [(''id'', PyStr ''p2''), (''image'', PyStr ''a.png'')] ''bucket'' =
   upload_file (sample_env ''bad'' (\<lambda>p. p = ''./data/images/uncategorized/a.png'') (Inr PyNone)) 0
     ''./data/images/uncategorized/a.png'' ''bucket'' ''uncategorized/a.png''"
  using uncategorized_substituted
    [of "[(''id'', PyStr ''p2''), (''image'', PyStr ''a.png'')]" "''a.png''"
        "sample_env ''bad'' (\<lambda>p. p = ''./data/images/uncategorized/a.png'') (Inr PyNone)" 0
        "''./data/images''" default_image "''./data/images/uncategorized/a.png''" "''bucket''"]
  by (simp add: dict_in_def join_step_def startswith_sep_def endswith_sep_def)

section \<open>Properties of a run\<close>

lemma image_step_None:
  assumes "image_step e cfg product st = (None, st')"
  shows "db_success st' = db_success st \<and> db_failure st' = db_failure st \<and>
     image_success st' + image_failure st' = Suc (image_success st + image_failure st) \<and>
     default_image_count st' \<le> Suc (default_image_count st) \<and>
     (\<exists>p product' up. calls st' = calls st @ [Ev_get_image_path product, Ev_upload_image_to_s3 p product' (cfg_s3_bucket cfg) up]) \<and>
     length (processed st') = Suc (length (processed st))"
  using assms
  by (auto simp: image_step_def Let_def split: sum.splits prod.splits if_splits)

lemma process_product_write_failed:
  assumes "isinstance product T_dict"
    and "utcnow_isoformat e (world st) = (ts, w1)"
    and "add_item e w1 tbl (dict_set (the_dict product) ''created_at'' (PyStr ts)) = (False, w2)"
  shows "process_product e cfg tbl product st =
     (None, st\<lparr>world := w2,
               calls := calls st @ [Ev_add_item tbl (dict_set (the_dict product) ''created_at'' (PyStr ts)) False],
               db_failure := db_failure st + 1,
               processed := processed st @ [dict_set (the_dict product) ''created_at'' (PyStr ts)]\<rparr>)"
  using assms by (simp add: process_product_def Let_def)

lemma process_product_write_ok:
  assumes "isinstance product T_dict"
    and "utcnow_isoformat e (world st) = (ts, w1)"
    and "add_item e w1 tbl (dict_set (the_dict product) ''created_at'' (PyStr ts)) = (True, w2)"
  shows "process_product e cfg tbl product st =
     image_step e cfg (dict_set (the_dict product) ''created_at'' (PyStr ts))
       (st\<lparr>world := w2,
           calls := calls st @ [Ev_add_item tbl (dict_set (the_dict product) ''created_at'' (PyStr ts)) True],
           db_success := db_success st + 1\<rparr>)"
  using assms by (simp add: process_product_def Let_def)

lemma process_product_not_dict:
  "\<not> isinstance product T_dict \<Longrightarrow> fst (process_product e cfg tbl product st) = Some TypeError"
  by (simp add: process_product_def Let_def split: prod.splits)

lemma process_product_counters:
  assumes "process_product e cfg tbl product st = (None, st')" and "counters_match st"
  shows "counters_match st' \<and> length (processed st') = Suc (length (processed st))"
proof -
  obtain ts w1 where t: "utcnow_isoformat e (world st) = (ts, w1)" by force
  have d: "isinstance product T_dict"
    using assms(1) process_product_not_dict [of product e cfg tbl st] by auto
  let ?stamped = "dict_set (the_dict product) ''created_at'' (PyStr ts)"
  obtain ok w2 where a: "add_item e w1 tbl ?stamped = (ok, w2)" by force
  show ?thesis
  proof (cases ok)
    case False
    with a have "add_item e w1 tbl ?stamped = (False, w2)" by simp
    from process_product_write_failed [OF d t this, of cfg] assms
    show ?thesis
      by (auto simp: counters_match_def writes_ok_def writes_failed_def upload_attempts_def)
  next
    case True
    with a have "add_item e w1 tbl ?stamped = (True, w2)" by simp
    from process_product_write_ok [OF d t this, of cfg] assms(1)
    have "image_step e cfg ?stamped
       (st\<lparr>world := w2, calls := calls st @ [Ev_add_item tbl ?stamped True],
           db_success := db_success st + 1\<rparr>) = (None, st')" by simp
    from image_step_None [OF this] assms(2)
    show ?thesis
      by (auto simp: counters_match_def writes_ok_def writes_failed_def upload_attempts_def)
  qed
qed

lemma run_loop_counters:
  "run_loop e cfg tbl win st = (None, st') \<Longrightarrow> counters_match st \<Longrightarrow>
   counters_match st' \<and> length (processed st') = length (processed st) + length win"
proof (induction win arbitrary: st)
  case Nil
  then show ?case by simp
next
  case (Cons product rest)
  obtain r st1 where p: "process_product e cfg tbl product st = (r, st1)" by force
  with Cons.prems(1) have r: "r = None" by (cases r) auto
  with p Cons.prems(1) have l: "run_loop e cfg tbl rest st1 = (None, st')" by simp
  from process_product_counters [OF p [unfolded r] Cons.prems(2)]
  have "counters_match st1" and "length (processed st1) = Suc (length (processed st))" by auto
  with Cons.IH [OF l] show ?case by simp
qed

lemma counters_match_initial: "counters_match (initial_state w)"
  by (simp add: counters_match_def initial_state_def writes_ok_def writes_failed_def upload_attempts_def)

lemma bulk_summary_run_loop:
  assumes "bulk_upload_products e cfg w f tbl start_index cnt = (Summary n, st)"
  shows "\<exists>products win. read_yaml e w (join_step (cfg_data_path cfg) f) = Inr products \<and>
      py_truthy products \<and> products_subset products start_index cnt = Inr win \<and>
      run_loop e cfg tbl win (initial_state w) = (None, st) \<and> n = length win"
  using assms
  by (auto simp: bulk_upload_products_def split: sum.splits py_error.splits if_splits prod.splits option.splits)

lemma bulk_summary_counters:
  assumes "bulk_upload_products e cfg w f tbl start_index cnt = (Summary n, st)"
  shows "counters_match st \<and> length (processed st) = n"
proof -
  from bulk_summary_run_loop [OF assms] obtain products win where
    l: "run_loop e cfg tbl win (initial_state w) = (None, st)" and n: "n = length win" by blast
  from run_loop_counters [OF l counters_match_initial] n show ?thesis
    by (simp add: initial_state_def)
qed

lemma map_of_dict_set: "map_of (dict_set d k v) = (map_of d)(k \<mapsto> v)"
  by (induction d) (auto simp: fun_eq_iff)

lemma plain_string_or_absent_cases:
  "plain_string_or_absent k d \<Longrightarrow> map_of d k = None \<or> (\<exists>s. map_of d k = Some (PyStr s))"
  by (auto simp: plain_string_or_absent_def split: option.splits pyval.splits)

lemma get_image_path_well_formed:
  assumes "well_formed_record product"
  shows "\<exists>p b. get_image_path e w (dict_set (the_dict product) ''created_at'' x) base dflt = Inr (p, b)"
proof (cases "dict_in ''image'' (the_dict product)")
  case False
  then have "\<not> dict_in ''image'' (dict_set (the_dict product) ''created_at'' x)"
    by (simp add: dict_in_def map_of_dict_set)
  then show ?thesis by (auto simp: get_image_path_def)
next
  case True
  then have i: "dict_in ''image'' (dict_set (the_dict product) ''created_at'' x)"
    by (simp add: dict_in_def map_of_dict_set)
  from assms have "plain_string_or_absent ''image'' (the_dict product)"
    and "plain_string_or_absent ''category'' (the_dict product)"
    by (simp_all add: well_formed_record_def)
  with True obtain img cat where
    "dict_get (the_dict product) ''image'' = PyStr img"
    "dict_get_default (the_dict product) ''category'' (PyStr ''uncategorized'') = PyStr cat"
    by (auto simp: dict_in_def dict_get_def dict_get_default_def
        dest!: plain_string_or_absent_cases)
  then have "dict_get (dict_set (the_dict product) ''created_at'' x) ''image'' = PyStr img"
    "dict_get_default (dict_set (the_dict product) ''created_at'' x) ''category''
       (PyStr ''uncategorized'') = PyStr cat"
    by (simp_all add: dict_get_def dict_get_default_def map_of_dict_set)
  with i show ?thesis by (auto simp: get_image_path_def Let_def)
qed

lemma image_step_total:
  "get_image_path e (world st) product (cfg_image_path cfg) default_image = Inr (p, b) \<Longrightarrow>
   fst (image_step e cfg product st) = None"
  by (simp add: image_step_def Let_def split: prod.splits)

lemma process_product_total:
  assumes "well_formed_record product"
  shows "fst (process_product e cfg tbl product st) = None"
proof -
  obtain ts w1 where t: "utcnow_isoformat e (world st) = (ts, w1)" by force
  from assms have d: "isinstance product T_dict" by (simp add: well_formed_record_def)
  let ?stamped = "dict_set (the_dict product) ''created_at'' (PyStr ts)"
  obtain ok w2 where a: "add_item e w1 tbl ?stamped = (ok, w2)" by force
  show ?thesis
  proof (cases ok)
    case False
    with a process_product_write_failed [OF d t, of tbl w2 cfg] show ?thesis by simp
  next
    case True
    let ?st1 = "st\<lparr>world := w2, calls := calls st @ [Ev_add_item tbl ?stamped True],
           db_success := db_success st + 1\<rparr>"
    from get_image_path_well_formed [OF assms, of e w2 "PyStr ts" "cfg_image_path cfg" default_image]
    obtain p b where "get_image_path e (world ?st1) ?stamped (cfg_image_path cfg) default_image = Inr (p, b)"
      by auto
    from image_step_total [OF this] True a process_product_write_ok [OF d t, of tbl w2 cfg]
    show ?thesis by simp
  qed
qed

lemma run_loop_total:
  "\<forall>p \<in> set win. well_formed_record p \<Longrightarrow> fst (run_loop e cfg tbl win st) = None"
proof (induction win arbitrary: st)
  case Nil
  then show ?case by simp
next
  case (Cons product rest)
  then have "fst (process_product e cfg tbl product st) = None"
    by (simp add: process_product_total)
  then obtain st1 where "process_product e cfg tbl product st = (None, st1)"
    by (cases "process_product e cfg tbl product st") auto
  with Cons show ?case by simp
qed

lemma bulk_list_well_formed:
  assumes "read_yaml e w (join_step (cfg_data_path cfg) f) = Inr (PyList xs)" and "xs \<noteq> []"
    and "\<forall>p \<in> set (select_window xs start_index cnt). well_formed_record p"
  shows "\<exists>st. bulk_upload_products e cfg w f tbl start_index cnt =
      (Summary (length (select_window xs start_index cnt)), st)"
proof -
  from run_loop_total [OF assms(3), of e cfg tbl "initial_state w"]
  obtain st where "run_loop e cfg tbl (select_window xs start_index cnt) (initial_state w) = (None, st)"
    by (cases "run_loop e cfg tbl (select_window xs start_index cnt) (initial_state w)") auto
  with assms(1,2) show ?thesis
    by (simp add: bulk_upload_products_def products_subset_def)
qed

lemma bulk_list_window:
  assumes "read_yaml e w (join_step (cfg_data_path cfg) f) = Inr (PyList xs)"
    and "bulk_upload_products e cfg w f tbl start_index cnt = (Summary n, st)"
  shows "n = length (select_window xs start_index cnt) \<and>
    run_loop e cfg tbl (select_window xs start_index cnt) (initial_state w) = (None, st)"
  using bulk_summary_run_loop [OF assms(2)] assms(1)
  by (auto simp: products_subset_def)

text \<open>
  C2: when the record-store write of a record fails, the body of the loop ends with the
  state it had after the write, changed in two places only: the write-failure counter is
  one higher, and the call list has gained the failed write and nothing else (no
  image-path resolution, no upload; the image counters, the default-image counter and the
  record's image field are as they were). At the end of a run that prints its summary
  the number of upload attempts equals the number of successful writes.
\<close>
theorem write_failure_skips_image_step:
  "(isinstance product T_dict \<and> utcnow_isoformat e (world st) = (ts, w1) \<and>
    add_item e w1 tbl (dict_set (the_dict product) ''created_at'' (PyStr ts)) = (False, w2) \<longrightarrow>
      process_product e cfg tbl product st =
        (None, st\<lparr>world := w2,
                  calls := calls st @
                    [Ev_add_item tbl (dict_set (the_dict product) ''created_at'' (PyStr ts)) False],
                  db_failure := db_failure st + 1,
                  processed := processed st @
                    [dict_set (the_dict product) ''created_at'' (PyStr ts)]\<rparr>)) \<and>
   (bulk_upload_products e cfg w f tbl start_index cnt = (Summary n, stf) \<longrightarrow>
      upload_attempts (calls stf) = writes_ok (calls stf) \<and>
      db_success stf = writes_ok (calls stf) \<and>
      db_failure stf = writes_failed (calls stf) \<and>
      image_success stf + image_failure stf = upload_attempts (calls stf))"
proof -
  have "bulk_upload_products e cfg w f tbl start_index cnt = (Summary n, stf) \<Longrightarrow>
      counters_match stf"
    by (simp add: bulk_summary_counters)
  then show ?thesis
    using process_product_write_failed [of product e st ts w1 tbl w2 cfg]
    by (auto simp: counters_match_def)
qed

theorem write_failure_skips_image_step_witness:
  "process_product (sample_env ''bad'' sample_files (Inr sample_doc)) sample_config ''Products''
     (PyDict [(''id'', PyStr ''bad''), (''image'', PyStr ''a.png'')]) (initial_state 0) =
     (None,
      \<lparr>db_success = 0, db_failure = 1, image_success = 0, image_failure = 0,
       default_image_count = 0, world = 2,
       calls = [Ev_add_item ''Products''
                  [(''id'', PyStr ''bad''), (''image'', PyStr ''a.png''),
                   (''created_at'', PyStr ''2024-05-01T10:00:00'')] False],
       processed = [[(''id'', PyStr ''bad''), (''image'', PyStr ''a.png''),
                     (''created_at'', PyStr ''2024-05-01T10:00:00'')]]\<rparr>) \<and>
   upload_attempts (calls (snd (bulk_upload_products (sample_env ''bad'' sample_files (Inr sample_doc))
      sample_config 0 ''products.yaml'' ''Products'' 0 None))) = 2 \<and>
   writes_ok (calls (snd (bulk_upload_products (sample_env ''bad'' sample_files (Inr sample_doc))
      sample_config 0 ''products.yaml'' ''Products'' 0 None))) = 2 \<and>
   writes_failed (calls (snd (bulk_upload_products (sample_env ''bad'' sample_files (Inr sample_doc))
      sample_config 0 ''products.yaml'' ''Products'' 0 None))) = 1"
proof -
  let ?e = "sample_env ''bad'' sample_files (Inr sample_doc)"
  let ?p = "PyDict [(''id'', PyStr ''bad''), (''image'', PyStr ''a.png'')]"
  let ?run = "bulk_upload_products ?e sample_config 0 ''products.yaml'' ''Products'' 0 None"
  have d: "isinstance ?p T_dict" by code_simp
  have t: "utcnow_isoformat ?e (world (initial_state 0)) = (''2024-05-01T10:00:00'', 1)"
    by code_simp
  have a: "add_item ?e 1 ''Products''
      (dict_set (the_dict ?p) ''created_at'' (PyStr ''2024-05-01T10:00:00'')) = (False, 2)"
    by code_simp
  have r: "?run = (Summary 3, snd ?run)"
  proof -
    have "fst ?run = Summary 3" by code_simp
    then show ?thesis by (simp add: prod_eq_iff)
  qed
  have u: "upload_attempts (calls (snd ?run)) = 2" by code_simp
  have f: "writes_failed (calls (snd ?run)) = 1" by code_simp
  from write_failure_skips_image_step
    [of ?p ?e "initial_state 0" "''2024-05-01T10:00:00''" 1 "''Products''" 2 sample_config 0
        "''products.yaml''" 0 None 3 "snd ?run"] d t a r u f
  show ?thesis by (simp add: initial_state_def)
qed

text \<open>
  C8: at the end of a run that prints its summary, write successes plus write failures
  equal the number of records of the window (for a list document, the length of the
  selected window), and upload successes plus upload failures equal the write successes.
  A non-empty list whose window holds well-formed records always reaches that summary.
\<close>
theorem counters_at_end_of_run:
  "(bulk_upload_products e cfg w f tbl start_index cnt = (Summary n, st) \<longrightarrow>
      db_success st + db_failure st = n \<and>
      image_success st + image_failure st = db_success st) \<and>
   (bulk_upload_products e cfg w f tbl start_index cnt = (Summary n, st) \<and>
    read_yaml e w (join_step (cfg_data_path cfg) f) = Inr (PyList xs) \<longrightarrow>
      n = length (select_window xs start_index cnt)) \<and>
   (read_yaml e w (join_step (cfg_data_path cfg) f) = Inr (PyList xs) \<and> xs \<noteq> [] \<and>
    (\<forall>p \<in> set (select_window xs start_index cnt). well_formed_record p) \<longrightarrow>
      (\<exists>st'. bulk_upload_products e cfg w f tbl start_index cnt =
         (Summary (length (select_window xs start_index cnt)), st')))"
proof -
  have a: "bulk_upload_products e cfg w f tbl start_index cnt = (Summary n, st) \<Longrightarrow>
      db_success st + db_failure st = n \<and> image_success st + image_failure st = db_success st"
    using bulk_summary_counters [of e cfg w f tbl start_index cnt n st]
    by (simp add: counters_match_def)
  show ?thesis
    using a bulk_list_window [of e w cfg f xs tbl start_index cnt n st]
      bulk_list_well_formed [of e w cfg f xs start_index cnt tbl]
    by blast
qed

theorem counters_at_end_of_run_witness:
  "db_success (snd (bulk_upload_products (sample_env ''bad'' sample_files (Inr sample_doc))
      sample_config 0 ''products.yaml'' ''Products'' 0 None)) +
   db_failure (snd (bulk_upload_products (sample_env ''bad'' sample_files (Inr sample_doc))
      sample_config 0 ''products.yaml'' ''Products'' 0 None)) = 3 \<and>
   image_success (snd (bulk_upload_products (sample_env ''bad'' sample_files (Inr sample_doc))
      sample_config 0 ''products.yaml'' ''Products'' 0 None)) +
   image_failure (snd (bulk_upload_products (sample_env ''bad'' sample_files (Inr sample_doc))
      sample_config 0 ''products.yaml'' ''Products'' 0 None)) =
   db_success (snd (bulk_upload_products (sample_env ''bad'' sample_files (Inr sample_doc))
      sample_config 0 ''products.yaml'' ''Products'' 0 None)) \<and>
   (\<exists>st'. bulk_upload_products (sample_env ''bad'' sample_files (Inr sample_doc))
      sample_config 0 ''products.yaml'' ''Products'' 0 None = (Summary 3, st'))"
proof -
  let ?e = "sample_env ''bad'' sample_files (Inr sample_doc)"
  let ?run = "bulk_upload_products ?e sample_config 0 ''products.yaml'' ''Products'' 0 None"
  let ?xs = "the_list sample_doc"
  have r: "?run = (Summary 3, snd ?run)"
  proof -
    have "fst ?run = Summary 3" by code_simp
    then show ?thesis by (simp add: prod_eq_iff)
  qed
  have y: "read_yaml ?e 0 (join_step (cfg_data_path sample_config) ''products.yaml'') =
      Inr (PyList ?xs)" by code_simp
  have n: "?xs \<noteq> []" by code_simp
  have wf: "\<forall>p \<in> set (select_window ?xs 0 None). well_formed_record p" by code_simp
  have l: "length (select_window ?xs 0 None) = 3" by code_simp
  from counters_at_end_of_run
    [of ?e sample_config 0 "''products.yaml''" "''Products''" 0 None 3 "snd ?run" ?xs] r y n wf l
  show ?thesis by simp
qed

section \<open>What a run changes in a record\<close>









section \<open>How the process ends\<close>




lemma bulk_no_products:
  "read_yaml e w (join_step (cfg_data_path cfg) f) = Inr products \<Longrightarrow> \<not> py_truthy products \<Longrightarrow>
   bulk_upload_products e cfg w f tbl start_index cnt = (NoProducts, initial_state w)"
  by (simp add: bulk_upload_products_def)













text \<open>
  C10: when the configuration is loaded and the input file parses to a document with no
  records (any falsy document: the empty document \<^verbatim>\<open>None\<close>, the empty list), the run returns
  at once: no call was made to either store, the outside world is as it was, no counter
  moved, and the exit code is 0.
\<close>
theorem empty_document_returns_at_once:
  assumes "load_config (getenv e) = Inr cfg"
    and "read_yaml e w (join_step (cfg_data_path cfg) (arg_yaml_file a)) = Inr products"
    and "\<not> py_truthy products"
  shows "main e w a = (NoProducts, initial_state w) \<and>
     exit_code (fst (main e w a)) = 0 \<and>
     calls (snd (main e w a)) = [] \<and>
     world (snd (main e w a)) = w \<and>
     db_success (snd (main e w a)) = 0 \<and> db_failure (snd (main e w a)) = 0 \<and>
     image_success (snd (main e w a)) = 0 \<and> image_failure (snd (main e w a)) = 0 \<and>
     default_image_count (snd (main e w a)) = 0"
proof -
  have "main e w a = (NoProducts, initial_state w)"
    using assms bulk_no_products [of e w cfg "arg_yaml_file a" products "arg_table_name a"
        "arg_start a" "arg_count a"]
    by (simp add: main_def)
  then show ?thesis by (simp add: exit_code_def initial_state_def)
qed

theorem empty_document_returns_at_once_witness:
  "main (sample_env ''bad'' sample_files (Inr PyNone)) 0 sample_args = (NoProducts, initial_state 0) \<and>
   main (sample_env ''bad'' sample_files (Inr (PyList []))) 0 sample_args = (NoProducts, initial_state 0) \<and>
   exit_code (fst (main (sample_env ''bad'' sample_files (Inr (PyList []))) 0 sample_args)) = 0 \<and>
   calls (snd (main (sample_env ''bad'' sample_files (Inr (PyList []))) 0 sample_args)) = []"
proof -
  let ?e1 = "sample_env ''bad'' sample_files (Inr PyNone)"
  let ?e2 = "sample_env ''bad'' sample_files (Inr (PyList []))"
  have l1: "load_config (getenv ?e1) = Inr sample_config" by code_simp
  have r1: "read_yaml ?e1 0 (join_step (cfg_data_path sample_config) (arg_yaml_file sample_args)) =
      Inr PyNone" by code_simp
  have l2: "load_config (getenv ?e2) = Inr sample_config" by code_simp
  have r2: "read_yaml ?e2 0 (join_step (cfg_data_path sample_config) (arg_yaml_file sample_args)) =
      Inr (PyList [])" by code_simp
  from empty_document_returns_at_once [OF l1 r1] empty_document_returns_at_once [OF l2 r2]
  show ?thesis by (simp add: exit_code_def initial_state_def)
qed


end
